theory Spec2Isabelle
  imports Complex_Main "HOL-Library.Sublist"
begin

section \<open>Data model of report.py\<close>

text \<open>
  Python numbers that reach a comparison in report.py are ints (complexity, byte
  counts) or finite floats (the rounded size in KB, the rounded comment density).
  Both are rational numbers and Python compares an int with a float exactly, so a
  metric is modelled as a \<^typ>\<open>rat\<close>. Strings are Python strings restricted to
  one-byte characters; \<open>upper\<close> and \<open>lower\<close> act on the ASCII letters.
\<close>

type_synonym number = rat

text \<open>
  The dictionary \<open>file_data\<close>. A field is \<open>None\<close> when the key is absent, so that
  \<open>d['k']\<close> (KeyError when absent) and \<open>d.get('k', default)\<close> can both be written.
  The value under \<open>'size'\<close> (field \<open>fsize\<close>) is itself a dictionary from strings to
  numbers; \<open>ftype\<close> is the key \<open>'type'\<close>.
\<close>

record file_data =
  path :: "string option"
  ftype :: "string option"
  fsize :: "(string \<rightharpoonup> number) option"
  tokens :: "nat option"
  complexity :: "number option"
  comment_density :: "number option"
  comment_quality :: "string option"
  safety :: "string option"
  recommendations :: "string list option"

definition no_data :: file_data where
  "no_data = \<lparr>path = None, ftype = None, fsize = None, tokens = None, complexity = None,
     comment_density = None, comment_quality = None, safety = None, recommendations = None\<rparr>"

datatype py_exception =
  OSError | UnicodeDecodeError | SyntaxError | TokenError | RuntimeError | KeyError | ValueError

subsection \<open>String helpers\<close>

definition upper_char :: "char \<Rightarrow> char" where
  "upper_char c =
     (case map_of (zip ''abcdefghijklmnopqrstuvwxyz'' ''ABCDEFGHIJKLMNOPQRSTUVWXYZ'') c of
        Some u \<Rightarrow> u | None \<Rightarrow> c)"

definition lower_char :: "char \<Rightarrow> char" where
  "lower_char c =
     (case map_of (zip ''ABCDEFGHIJKLMNOPQRSTUVWXYZ'' ''abcdefghijklmnopqrstuvwxyz'') c of
        Some u \<Rightarrow> u | None \<Rightarrow> c)"

definition upper :: "string \<Rightarrow> string" where
  "upper s = map upper_char s"

definition lower :: "string \<Rightarrow> string" where
  "lower s = map lower_char s"

subsection \<open>Configuration constants\<close>

text \<open>
  \<open>CLAUDE_TOLERANCES\<close>: each tier table is a Python dict, iterated in insertion
  order, so it is an association list. Only the keys \<open>'python'\<close> and \<open>'config'\<close>
  exist, and each has only the sub-tables written here; any other lookup is a
  KeyError.
\<close>

definition complexity_tiers :: "(string \<times> number) list" where
  "complexity_tiers = [(''simple'', 15), (''safe'', 35), (''complex'', 55), (''danger'', 56)]"

definition comment_tiers :: "(string \<times> number) list" where
  "comment_tiers = [(''excellent'', 25), (''good'', 15), (''fair'', 5), (''poor'', 0)]"

definition size_tiers :: "(string \<times> number) list" where
  "size_tiers = [(''simple'', 1000), (''safe'', 2500), (''complex'', 4000), (''danger'', 4001)]"

definition CLAUDE_TOLERANCES :: "string \<Rightarrow> string \<Rightarrow> py_exception + (string \<times> number) list" where
  "CLAUDE_TOLERANCES file_type table =
     (if file_type = ''python'' then
        (if table = ''complexity_tiers'' then Inr complexity_tiers
         else if table = ''comment_tiers'' then Inr comment_tiers
         else Inl KeyError)
      else if file_type = ''config'' then
        (if table = ''size_tiers'' then Inr size_tiers else Inl KeyError)
      else Inl KeyError)"

text \<open>\<open>AI_THRESHOLDS\<close>: model name to (python_complexity, config_size_kb), in insertion order.\<close>

definition AI_THRESHOLDS :: "(string \<times> number \<times> number) list" where
  "AI_THRESHOLDS =
     [(''claude-3.5-sonnet'', 55, 4000),
      (''claude-3.5-haiku'', 35, 2500),
      (''gpt-4-turbo'', 45, 3500)]"

section \<open>Safety tier resolver\<close>

definition safety_order :: "string list" where
  "safety_order = [''SIMPLE'', ''SAFE'', ''COMPLEX'', ''DANGER'']"

text \<open>\<open>list.index\<close>: the first position of the element, ValueError when it is absent.\<close>

fun py_index :: "'a list \<Rightarrow> 'a \<Rightarrow> nat option" where
  "py_index [] y = None"
| "py_index (x # xs) y = (if x = y then Some 0 else map_option Suc (py_index xs y))"

text \<open>
  \<open>adjust_safety\<close>. The indices \<open>max(0, idx-1)\<close> and \<open>min(len-1, idx+1)\<close> are
  Python ints; \<open>idx - 1\<close> is \<open>-1\<close> at \<open>idx = 0\<close> and \<open>max\<close> brings it back to 0,
  which truncating subtraction on \<^typ>\<open>nat\<close> also gives. Both indices are in
  range whenever \<open>index\<close> succeeded.
\<close>

definition adjust_safety :: "string \<Rightarrow> number \<Rightarrow> string" where
  "adjust_safety base_safety density =
     (case py_index safety_order base_safety of
        None \<Rightarrow> base_safety
      | Some idx \<Rightarrow>
          if density \<ge> 25 then safety_order ! (max 0 (idx - 1))
          else if density < 10 then safety_order ! (min (length safety_order - 1) (idx + 1))
          else base_safety)"

text \<open>
  The \<open>for ... else\<close> loop of \<open>get_safety_rating\<close>: the first tier in iteration
  order with \<open>metric <= threshold\<close>, upper-cased; \<open>'DANGER'\<close> when the loop ends
  without a \<open>break\<close>.
\<close>

fun base_safety :: "(string \<times> number) list \<Rightarrow> number \<Rightarrow> string" where
  "base_safety [] metric = ''DANGER''"
| "base_safety ((rating, threshold) # tiers) metric =
     (if metric \<le> threshold then upper rating else base_safety tiers metric)"

text \<open>
  \<open>get_safety_rating\<close>. Every subscript of the source is a possible KeyError, and
  the handler turns each into \<open>'ERROR'\<close>: \<open>file_data['type']\<close>,
  \<open>file_data['complexity']\<close> or \<open>file_data['size']['kb']\<close>, and the two lookups in
  \<open>CLAUDE_TOLERANCES\<close>, in this order.
\<close>

definition get_safety_rating :: "file_data \<Rightarrow> string" where
  "get_safety_rating file_data =
     (case ftype file_data of
        None \<Rightarrow> ''ERROR''
      | Some file_type \<Rightarrow>
          (case (if file_type = ''python'' then complexity file_data
                 else (case fsize file_data of None \<Rightarrow> None | Some sz \<Rightarrow> sz ''kb'')) of
             None \<Rightarrow> ''ERROR''
           | Some metric \<Rightarrow>
               (case CLAUDE_TOLERANCES file_type
                       (if file_type = ''python'' then ''complexity_tiers'' else ''size_tiers'') of
                  Inl e \<Rightarrow> ''ERROR''
                | Inr tiers \<Rightarrow>
                    if file_type = ''python''
                    then adjust_safety (base_safety tiers metric)
                           (case comment_density file_data of None \<Rightarrow> 0 | Some d \<Rightarrow> d)
                    else base_safety tiers metric)))"

section \<open>Recommendation filter\<close>

text \<open>
  The loop over \<open>AI_THRESHOLDS.items()\<close>: a model is appended when the metric is at
  most its threshold for the file type.
\<close>

fun metric_filter :: "string \<Rightarrow> number \<Rightarrow> (string \<times> number \<times> number) list \<Rightarrow> string list" where
  "metric_filter file_type metric [] = []"
| "metric_filter file_type metric ((model, python_complexity, config_size_kb) # rest) =
     (let threshold = (if file_type = ''python'' then python_complexity else config_size_kb)
      in if metric \<le> threshold then model # metric_filter file_type metric rest
         else metric_filter file_type metric rest)"

text \<open>
  \<open>get_ai_recommendations\<close>. Every access is a \<open>.get\<close> with a default, and with the
  fields typed as above nothing in the body can raise, so the handler returning
  \<open>['Analysis Failed']\<close> has no branch here.
\<close>

definition primary_metric :: "string \<Rightarrow> file_data \<Rightarrow> number" where
  "primary_metric file_type file_data =
     (if file_type = ''python''
      then (case complexity file_data of None \<Rightarrow> 0 | Some c \<Rightarrow> c)
      else (case (case fsize file_data of None \<Rightarrow> Map.empty | Some sz \<Rightarrow> sz) ''kb'' of
              None \<Rightarrow> 0 | Some k \<Rightarrow> k))"

definition get_ai_recommendations :: "file_data \<Rightarrow> string list" where
  "get_ai_recommendations file_data =
     (let file_type = (case ftype file_data of None \<Rightarrow> ''unknown'' | Some t \<Rightarrow> t);
          safety_rating = (case safety file_data of None \<Rightarrow> ''ERROR'' | Some s \<Rightarrow> s)
      in if file_type \<noteq> ''python'' \<and> file_type \<noteq> ''config'' then [''Human Review'']
         else
           let recs = metric_filter file_type (primary_metric file_type file_data) AI_THRESHOLDS
           in if safety_rating = ''DANGER''
              then (if ''claude-3.5-sonnet'' \<in> set recs then [''claude-3.5-sonnet''] else [])
              else if safety_rating = ''COMPLEX''
              then filter (\<lambda>m. m \<noteq> ''claude-3.5-haiku'') recs
              else recs)"

section \<open>External collaborators\<close>

text \<open>
  What report.py gets from the operating system, the tokenizer, radon and float
  arithmetic, for a given path: each call either raises or returns.
  \<^item> \<open>resolve\<close>: \<open>str(Path(p).resolve())\<close>;
  \<^item> \<open>getsize\<close>: \<open>os.path.getsize(p)\<close>;
  \<^item> \<open>tokenize_file\<close>: opening \<open>p\<close> in binary mode and running \<open>tokenize.tokenize\<close> to
    the end, as the list of token types;
  \<^item> \<open>read_text\<close>: opening \<open>p\<close> as UTF-8 text and reading it all (newlines translated);
  \<^item> \<open>cc_visit\<close>: radon's blocks for a source text, as the list of their complexities;
  \<^item> \<open>round_kb b\<close>, \<open>round_mb b\<close>, \<open>round_density c t\<close>: the floats
    \<open>round(b / 1024, 1)\<close>, \<open>round(b / 1024 ** 2, 3)\<close> and \<open>round(c / t * 100, 1)\<close>.
  The file system does not change during one call, so the same operation on the same
  path has the same outcome. \<open>print\<close> is taken not to raise.
\<close>

datatype token_type = COMMENT | OTHER_TOKEN

record platform =
  resolve :: "string \<Rightarrow> py_exception + string"
  getsize :: "string \<Rightarrow> py_exception + nat"
  tokenize_file :: "string \<Rightarrow> py_exception + token_type list"
  read_text :: "string \<Rightarrow> py_exception + string"
  cc_visit :: "string \<Rightarrow> py_exception + int list"
  round_kb :: "nat \<Rightarrow> number"
  round_mb :: "nat \<Rightarrow> number"
  round_density :: "nat \<Rightarrow> nat \<Rightarrow> number"

subsection \<open>Pure library functions on strings\<close>

definition is_space :: "char \<Rightarrow> bool" where
  "is_space c \<longleftrightarrow> c \<in> set [CHR 0x09, CHR 0x0A, CHR 0x0B, CHR 0x0C, CHR 0x0D,
     CHR 0x1C, CHR 0x1D, CHR 0x1E, CHR 0x1F, CHR 0x20, CHR 0x85, CHR 0xA0]"

definition strip :: "string \<Rightarrow> string" where
  "strip s = rev (dropWhile is_space (rev (dropWhile is_space s)))"

definition startswith :: "string \<Rightarrow> string \<Rightarrow> bool" where
  "startswith s p \<longleftrightarrow> take (length p) s = p"

text \<open>\<open>f.readlines()\<close> on translated text: lines end after each newline, ends kept.\<close>

fun py_readlines :: "string \<Rightarrow> string list" where
  "py_readlines [] = []"
| "py_readlines (c # cs) =
     (if c = CHR 0x0A then [c] # py_readlines cs
      else (case py_readlines cs of [] \<Rightarrow> [[c]] | l # ls \<Rightarrow> (c # l) # ls))"

text \<open>\<open>str.split()\<close>: the maximal runs of non-whitespace; \<open>w\<close> is the current run, reversed.\<close>

fun split_acc :: "string \<Rightarrow> string \<Rightarrow> string list" where
  "split_acc [] w = (if w = [] then [] else [rev w])"
| "split_acc (c # cs) w =
     (if is_space c then (if w = [] then split_acc cs [] else rev w # split_acc cs [])
      else split_acc cs (c # w))"

definition py_split :: "string \<Rightarrow> string list" where
  "py_split s = split_acc s []"

definition basename :: "string \<Rightarrow> string" where
  "basename p = rev (takeWhile (\<lambda>c. c \<noteq> CHR ''/'') (rev p))"

text \<open>
  The second component of \<open>os.path.splitext\<close>: from the last dot of the last path
  component, unless that component has no dot after its leading dots.
\<close>

definition splitext_ext :: "string \<Rightarrow> string" where
  "splitext_ext p =
     (let b = basename p
      in if CHR ''.'' \<in> set (dropWhile (\<lambda>c. c = CHR ''.'') b)
         then CHR ''.'' # rev (takeWhile (\<lambda>c. c \<noteq> CHR ''.'') (rev b))
         else [])"

definition PYTHON_EXTS :: "string list" where
  "PYTHON_EXTS = [''.py'']"

definition CONFIG_EXTS :: "string list" where
  "CONFIG_EXTS = [''.ini'', ''.cfg'', ''.conf'', ''.toml'', ''.yml'', ''.yaml'', ''.json'']"

section \<open>Comment quality analyzer\<close>

text \<open>
  The loop over \<open>comment_tiers.items()\<close>: \<open>quality\<close> starts as \<open>'POOR'\<close> and becomes the
  upper-cased name of the first tier with \<open>density >= threshold\<close>.
\<close>

fun quality_loop :: "(string \<times> number) list \<Rightarrow> number \<Rightarrow> string" where
  "quality_loop [] density = ''POOR''"
| "quality_loop ((tier, threshold) # tiers) density =
     (if density \<ge> threshold then upper tier else quality_loop tiers density)"

definition triple_double_quote :: string where
  "triple_double_quote = [CHR 0x22, CHR 0x22, CHR 0x22]"

definition triple_single_quote :: string where
  "triple_single_quote = [CHR 0x27, CHR 0x27, CHR 0x27]"

text \<open>\<open>has_module_doc\<close> stays \<open>False\<close> unless \<open>content\<close> is non-empty.\<close>

definition has_module_doc :: "string list \<Rightarrow> bool" where
  "has_module_doc content =
     (case content of
        [] \<Rightarrow> False
      | first # _ \<Rightarrow> startswith (strip first) triple_double_quote
                     \<or> startswith (strip first) triple_single_quote)"

text \<open>
  \<open>analyze_comments\<close> returns the pair (comment_density, comment_quality). Anything
  raised inside is caught and gives \<open>(0, 'ERROR')\<close>.
\<close>

definition analyze_comments :: "platform \<Rightarrow> string \<Rightarrow> number \<times> string" where
  "analyze_comments E file_path =
     (case tokenize_file E file_path of
        Inl e \<Rightarrow> (0, ''ERROR'')
      | Inr toks \<Rightarrow>
          (let comment_lines = length (filter (\<lambda>t. t = COMMENT) toks)
           in case read_text E file_path of
                Inl e \<Rightarrow> (0, ''ERROR'')
              | Inr text \<Rightarrow>
                  (let content = py_readlines text;
                       total_lines = length content;
                       density = (if total_lines > 0
                                  then round_density E comment_lines total_lines else 0)
                   in case CLAUDE_TOLERANCES ''python'' ''comment_tiers'' of
                        Inl e \<Rightarrow> (0, ''ERROR'')
                      | Inr tiers \<Rightarrow>
                          (let quality = quality_loop tiers density
                           in if total_lines = 0 \<and> has_module_doc content
                              then (density, ''EXCELLENT'')
                              else (density, quality)))))"

section \<open>Classification facade\<close>

text \<open>
  \<open>get_file_size\<close> catches OSError (and its subclasses, all written \<open>OSError\<close> here) and
  returns zeros; anything else goes on to the caller.
\<close>

definition get_file_size :: "platform \<Rightarrow> string \<Rightarrow> py_exception + (string \<rightharpoonup> number)" where
  "get_file_size E p =
     (case getsize E p of
        Inr bytes_size \<Rightarrow>
          Inr [''bytes'' \<mapsto> of_nat bytes_size, ''kb'' \<mapsto> round_kb E bytes_size,
               ''mb'' \<mapsto> round_mb E bytes_size]
      | Inl e \<Rightarrow>
          if e = OSError then Inr [''bytes'' \<mapsto> 0, ''kb'' \<mapsto> 0, ''mb'' \<mapsto> 0] else Inl e)"

definition file_type_of :: "string \<Rightarrow> string" where
  "file_type_of file_path =
     (let ext = lower (splitext_ext file_path)
      in if ext \<in> set PYTHON_EXTS then ''python''
         else if ext \<in> set CONFIG_EXTS then ''config'' else ''other'')"

text \<open>
  The body of the \<open>try\<close> of \<open>analyze_file\<close>: \<open>Inl e\<close> when \<open>e\<close> is raised inside it,
  \<open>Inr None\<close> for the two \<open>return None\<close>, \<open>Inr (Some result)\<close> otherwise.
\<close>

definition analyze_file_try :: "platform \<Rightarrow> string \<Rightarrow> py_exception + file_data option" where
  "analyze_file_try E file_path =
     (if basename file_path = ''report.py'' then Inr None
      else
        let file_type = file_type_of file_path
        in if file_type = ''other'' then Inr None
           else
             case resolve E file_path of
               Inl e \<Rightarrow> Inl e
             | Inr resolved \<Rightarrow>
                 (case get_file_size E file_path of
                    Inl e \<Rightarrow> Inl e
                  | Inr sz \<Rightarrow>
                      (let result = \<lparr>path = Some resolved, ftype = Some file_type,
                             fsize = Some sz, tokens = Some 0, complexity = Some 0,
                             comment_density = Some 0, comment_quality = Some ''N/A'',
                             safety = Some ''PENDING'', recommendations = Some []\<rparr>
                       in case
                            (if file_type = ''python'' then
                               (case tokenize_file E file_path of
                                  Inl e \<Rightarrow> Inl e
                                | Inr toks \<Rightarrow>
                                    (case read_text E file_path of
                                       Inl e \<Rightarrow> Inl e
                                     | Inr text \<Rightarrow>
                                         (case cc_visit E text of
                                            Inl e \<Rightarrow> Inl e
                                          | Inr blocks \<Rightarrow>
                                              (case analyze_comments E file_path of
                                                 (density, quality) \<Rightarrow>
                                                   Inr (result\<lparr>tokens := Some (length toks),
                                                     complexity := Some (of_int (sum_list blocks)),
                                                     comment_density := Some density,
                                                     comment_quality := Some quality\<rparr>)))))
                             else
                               (case read_text E file_path of
                                  Inl e \<Rightarrow> Inl e
                                | Inr content \<Rightarrow>
                                    Inr (result\<lparr>tokens := Some (length (py_split content))\<rparr>)))
                          of
                            Inl e \<Rightarrow> Inl e
                          | Inr result \<Rightarrow>
                              (let result = result\<lparr>safety := Some (get_safety_rating result)\<rparr>
                               in Inr (Some (result\<lparr>recommendations :=
                                               Some (get_ai_recommendations result)\<rparr>))))))"

text \<open>The dictionary built by the \<open>except Exception\<close> handler, given the resolved path.\<close>

definition failure_record :: "string \<Rightarrow> file_data" where
  "failure_record resolved =
     \<lparr>path = Some resolved, ftype = Some ''error'',
      fsize = Some [''bytes'' \<mapsto> 0, ''kb'' \<mapsto> 0, ''mb'' \<mapsto> 0],
      tokens = Some 0, complexity = Some 0, comment_density = Some 0,
      comment_quality = Some ''ERROR'', safety = Some ''ANALYSIS FAILED'',
      recommendations = Some [''Human Review'']\<rparr>"

text \<open>
  \<open>analyze_file\<close>. The handler evaluates \<open>str(Path(file_path).resolve())\<close> again, outside
  any \<open>try\<close>: what it raises leaves \<open>analyze_file\<close>.
\<close>

definition analyze_file :: "platform \<Rightarrow> string \<Rightarrow> py_exception + file_data option" where
  "analyze_file E file_path =
     (case analyze_file_try E file_path of
        Inr r \<Rightarrow> Inr r
      | Inl e \<Rightarrow>
          (case resolve E file_path of
             Inl e' \<Rightarrow> Inl e'
           | Inr resolved \<Rightarrow> Inr (Some (failure_record resolved))))"

section \<open>The specification's tables and scales\<close>

text \<open>
  The tier tables as the specification writes them, the lookup it describes (the
  first tier, in table order, whose threshold is at least the metric; DANGER when
  there is none), and the position of a tier on the scale
  SIMPLE < SAFE < COMPLEX < DANGER.
\<close>

definition spec_program_tiers :: "(string \<times> number) list" where
  "spec_program_tiers = [(''SIMPLE'', 15), (''SAFE'', 35), (''COMPLEX'', 55), (''DANGER'', 56)]"

definition spec_config_tiers :: "(string \<times> number) list" where
  "spec_config_tiers =
     [(''SIMPLE'', 1000), (''SAFE'', 2500), (''COMPLEX'', 4000), (''DANGER'', 4001)]"

definition spec_base_tier :: "(string \<times> number) list \<Rightarrow> number \<Rightarrow> string" where
  "spec_base_tier table metric =
     (case find (\<lambda>(tier, threshold). threshold \<ge> metric) table of
        Some (tier, threshold) \<Rightarrow> tier
      | None \<Rightarrow> ''DANGER'')"

definition tier_rank :: "string \<Rightarrow> nat" where
  "tier_rank t = (if t = ''SIMPLE'' then 0 else if t = ''SAFE'' then 1
                  else if t = ''COMPLEX'' then 2 else 3)"

text \<open>One step towards SIMPLE and one step towards DANGER on the scale, staying at the ends.\<close>

definition one_step_safer :: "string \<Rightarrow> string" where
  "one_step_safer t = (if t = ''DANGER'' then ''COMPLEX''
                       else if t = ''COMPLEX'' then ''SAFE'' else ''SIMPLE'')"

definition one_step_less_safe :: "string \<Rightarrow> string" where
  "one_step_less_safe t = (if t = ''SIMPLE'' then ''SAFE''
                           else if t = ''SAFE'' then ''COMPLEX'' else ''DANGER'')"

text \<open>The comment-quality table of the specification, first match in table order, POOR as floor.\<close>

definition spec_comment_tiers :: "(string \<times> number) list" where
  "spec_comment_tiers = [(''EXCELLENT'', 25), (''GOOD'', 15), (''FAIR'', 5), (''POOR'', 0)]"

definition spec_quality :: "number \<Rightarrow> string" where
  "spec_quality density =
     (case find (\<lambda>(tier, threshold). density \<ge> threshold) spec_comment_tiers of
        Some (tier, threshold) \<Rightarrow> tier
      | None \<Rightarrow> ''POOR'')"

text \<open>A recognized file type is \<open>'python'\<close> (program) or \<open>'config'\<close>.\<close>

definition recognized :: "string \<Rightarrow> bool" where
  "recognized ft \<longleftrightarrow> ft = ''python'' \<or> ft = ''config''"

text \<open>
  The top-capability model has the greatest threshold in both columns of the
  registry, the weakest-capability model the least.
\<close>

definition top_capability :: "string \<Rightarrow> bool" where
  "top_capability name \<longleftrightarrow>
     (\<exists>(n, py, cfg) \<in> set AI_THRESHOLDS. n = name \<and>
        (\<forall>(n', py', cfg') \<in> set AI_THRESHOLDS. py' \<le> py \<and> cfg' \<le> cfg))"

definition weakest_capability :: "string \<Rightarrow> bool" where
  "weakest_capability name \<longleftrightarrow>
     (\<exists>(n, py, cfg) \<in> set AI_THRESHOLDS. n = name \<and>
        (\<forall>(n', py', cfg') \<in> set AI_THRESHOLDS. py \<le> py' \<and> cfg \<le> cfg'))"

text \<open>\<open>file_data.get('comment_density', 0)\<close>.\<close>

definition density_or_zero :: "file_data \<Rightarrow> number" where
  "density_or_zero fd = (case comment_density fd of None \<Rightarrow> 0 | Some d \<Rightarrow> d)"

section \<open>A sample environment\<close>

text \<open>
  Rounding to \<open>n\<close> decimals on exact rationals, ties to even: what \<open>round(x, n)\<close>
  gives when no float error intervenes. The sample environment uses it; the
  theorems hold for any rounding.
\<close>

definition ideal_round :: "nat \<Rightarrow> rat \<Rightarrow> number" where
  "ideal_round n x =
     (let s = x * 10 ^ n; f = \<lfloor>s\<rfloor>; r = s - of_int f
      in of_int (if r < 1 / 2 then f else if r > 1 / 2 then f + 1
                 else if even f then f else f + 1) / 10 ^ n)"

definition newline :: string where
  "newline = [CHR 0x0A]"

text \<open>
  A directory with: two Python files, one with a comment on the first of its four
  lines; a file that is only a one-line docstring; an empty file; a file that does
  not parse; a configuration file; and \<open>loop.py\<close>, a symbolic link to itself, which
  \<open>Path.resolve\<close> refuses with RuntimeError (Python up to 3.12) and which cannot be
  opened.
\<close>

definition sample_text :: "string \<Rightarrow> py_exception + string" where
  "sample_text p =
     (if p = ''./app.py'' then Inr (''x = 1'' @ newline @ ''y = 2'' @ newline)
      else if p = ''./noted.py''
        then Inr (''# a'' @ newline @ ''x = 1'' @ newline @ ''y = 2'' @ newline @ ''z = 3'' @ newline)
      else if p = ''./doc.py''
        then Inr (triple_double_quote @ ''Doc.'' @ triple_double_quote @ newline)
      else if p = ''./empty.py'' then Inr []
      else if p = ''./broken.py'' then Inr (''def f(:'' @ newline)
      else if p = ''./setup.cfg'' then Inr (''[metadata]'' @ newline @ ''name = demo'' @ newline)
      else Inl OSError)"

definition sample_tokens :: "string \<Rightarrow> py_exception + token_type list" where
  "sample_tokens p =
     (if p = ''./app.py'' then Inr (replicate 10 OTHER_TOKEN)
      else if p = ''./noted.py'' then Inr ([OTHER_TOKEN, COMMENT] @ replicate 14 OTHER_TOKEN)
      else if p = ''./doc.py'' then Inr (replicate 4 OTHER_TOKEN)
      else if p = ''./empty.py'' then Inr (replicate 2 OTHER_TOKEN)
      else if p = ''./broken.py'' then Inl SyntaxError
      else Inl OSError)"

definition sample_platform :: platform where
  "sample_platform =
     \<lparr>resolve = (\<lambda>p. if p = ''./loop.py'' then Inl RuntimeError
                     else Inr (''/repo/'' @ basename p)),
      getsize = (\<lambda>p. case sample_text p of Inl e \<Rightarrow> Inl OSError | Inr t \<Rightarrow> Inr (length t)),
      tokenize_file = sample_tokens,
      read_text = sample_text,
      cc_visit = (\<lambda>text. if text = ''x = 1'' @ newline @ ''y = 2'' @ newline then Inr [30, 20]
                           else Inr []),
      round_kb = (\<lambda>b. ideal_round 1 (of_nat b / 1024)),
      round_mb = (\<lambda>b. ideal_round 3 (of_nat b / 1024 ^ 2)),
      round_density = (\<lambda>c t. ideal_round 1 (of_nat c / of_nat t * 100))\<rparr>"

text \<open>Dictionaries for the resolver and the filter: a program file and a configuration file.\<close>

definition program_data :: "number \<Rightarrow> number \<Rightarrow> string \<Rightarrow> file_data" where
  "program_data cc density rating =
     no_data\<lparr>ftype := Some ''python'', complexity := Some cc,
       comment_density := Some density, safety := Some rating\<rparr>"

definition config_data :: "number \<Rightarrow> string \<Rightarrow> file_data" where
  "config_data kb rating =
     no_data\<lparr>ftype := Some ''config'', fsize := Some [''kb'' \<mapsto> kb], safety := Some rating\<rparr>"

section \<open>Shared lemmas\<close>

lemma upper_tier_names:
  "upper ''simple'' = ''SIMPLE''" "upper ''safe'' = ''SAFE''"
  "upper ''complex'' = ''COMPLEX''" "upper ''danger'' = ''DANGER''"
  by (simp_all add: upper_def upper_char_def)

lemma upper_quality_names:
  "upper ''excellent'' = ''EXCELLENT''" "upper ''good'' = ''GOOD''"
  "upper ''fair'' = ''FAIR''" "upper ''poor'' = ''POOR''"
  by (simp_all add: upper_def upper_char_def)

lemma base_program_cases:
  "base_safety complexity_tiers m =
     (if m \<le> 15 then ''SIMPLE'' else if m \<le> 35 then ''SAFE''
      else if m \<le> 55 then ''COMPLEX'' else ''DANGER'')"
  by (simp add: complexity_tiers_def upper_tier_names)

lemma base_config_cases:
  "base_safety size_tiers m =
     (if m \<le> 1000 then ''SIMPLE'' else if m \<le> 2500 then ''SAFE''
      else if m \<le> 4000 then ''COMPLEX'' else ''DANGER'')"
  by (simp add: size_tiers_def upper_tier_names)

lemma base_on_scale:
  "base_safety complexity_tiers m \<in> set safety_order"
  "base_safety size_tiers m \<in> set safety_order"
  by (simp_all add: base_program_cases base_config_cases safety_order_def)

lemma rating_config:
  "get_safety_rating (fd\<lparr>ftype := Some ''config'', fsize := Some (sz(''kb'' \<mapsto> m))\<rparr>)
     = base_safety size_tiers m"
  by (simp add: get_safety_rating_def CLAUDE_TOLERANCES_def)

lemma rating_program:
  "get_safety_rating (fd\<lparr>ftype := Some ''python'', complexity := Some m\<rparr>)
     = adjust_safety (base_safety complexity_tiers m) (density_or_zero fd)"
  by (simp add: get_safety_rating_def CLAUDE_TOLERANCES_def density_or_zero_def)

lemma adjust_steps:
  assumes "b \<in> set safety_order"
  shows "adjust_safety b d =
           (if d \<ge> 25 then one_step_safer b
            else if d < 10 then one_step_less_safe b else b)"
  using assms
  by (auto simp add: safety_order_def adjust_safety_def one_step_safer_def one_step_less_safe_def)

lemma step_ranks:
  assumes "b \<in> set safety_order"
  shows "tier_rank (one_step_safer b) = (if tier_rank b = 0 then 0 else tier_rank b - 1)"
    and "tier_rank (one_step_less_safe b) = (if tier_rank b = 3 then 3 else tier_rank b + 1)"
  using assms
  by (auto simp add: safety_order_def tier_rank_def one_step_safer_def one_step_less_safe_def)

lemma adjust_rank:
  assumes "b \<in> set safety_order"
  shows "tier_rank (adjust_safety b d) =
           (if d \<ge> 25 then (if tier_rank b = 0 then 0 else tier_rank b - 1)
            else if d < 10 then (if tier_rank b = 3 then 3 else tier_rank b + 1)
            else tier_rank b)"
  using assms by (simp add: adjust_steps step_ranks)

lemma rank_bound: "tier_rank t \<le> 3"
  by (simp add: tier_rank_def)

lemma metric_filter_eq:
  "metric_filter ft m reg =
     map fst (filter (\<lambda>(model, py, cfg). m \<le> (if ft = ''python'' then py else cfg)) reg)"
  by (induction ft m reg rule: metric_filter.induct) (simp_all add: Let_def)

lemma registry_distinct: "distinct (map fst AI_THRESHOLDS)"
  by (simp add: AI_THRESHOLDS_def)

lemma recommendations_subseq:
  assumes "recognized ft" "ftype fd = Some ft"
  shows "subseq (get_ai_recommendations fd) (metric_filter ft (primary_metric ft fd) AI_THRESHOLDS)"
  using assms
  by (auto simp: get_ai_recommendations_def recognized_def Let_def subseq_singleton_left)

lemma recommendations_subset:
  assumes "recognized ft" "ftype fd = Some ft"
  shows "set (get_ai_recommendations fd)
    \<subseteq> set (metric_filter ft (primary_metric ft fd) AI_THRESHOLDS)"
  using assms
  by (auto simp: get_ai_recommendations_def recognized_def Let_def)

lemma readlines_empty: "py_readlines t = [] \<longleftrightarrow> t = []"
  by (cases t) (auto split: list.splits)


lemma quality_loop_spec: "quality_loop comment_tiers d = spec_quality d"
  by (simp add: comment_tiers_def spec_quality_def spec_comment_tiers_def upper_quality_names)

lemma spec_quality_cases:
  "spec_quality d = (if d \<ge> 25 then ''EXCELLENT'' else if d \<ge> 15 then ''GOOD''
                     else if d \<ge> 5 then ''FAIR'' else ''POOR'')"
  by (simp add: spec_quality_def spec_comment_tiers_def)

lemma zero_lines_poor:
  assumes "tokenize_file E p = Inr toks" "read_text E p = Inr text"
    and "length (py_readlines text) = 0"
  shows "analyze_comments E p = (0, ''POOR'')"
  using assms
  by (simp add: analyze_comments_def CLAUDE_TOLERANCES_def quality_loop_spec Let_def
      has_module_doc_def spec_quality_cases)

lemmas sample_defs = sample_platform_def sample_text_def sample_tokens_def newline_def
  triple_double_quote_def triple_single_quote_def ideal_round_def

lemmas path_defs = basename_def file_type_of_def splitext_ext_def lower_def lower_char_def
  PYTHON_EXTS_def CONFIG_EXTS_def

section \<open>The facade when the path resolves\<close>

lemma analyze_file_returns:
  assumes "resolve E p = Inr r"
  shows "\<exists>res. analyze_file E p = Inr res"
  using assms by (simp add: analyze_file_def split: sum.splits)

lemma analyze_file_failure_record:
  assumes "resolve E p = Inr r" "analyze_file_try E p = Inl e"
  shows "analyze_file E p = Inr (Some (failure_record r))"
  using assms by (simp add: analyze_file_def)

lemma analyze_file_raises:
  "analyze_file E p = Inl e \<longleftrightarrow>
     (\<exists>e'. analyze_file_try E p = Inl e') \<and> resolve E p = Inl e"
  by (auto simp: analyze_file_def split: sum.splits)

lemma failure_record_fields:
  "safety (failure_record r) = Some ''ANALYSIS FAILED''"
  "recommendations (failure_record r) = Some [''Human Review'']"
  "tokens (failure_record r) = Some 0"
  "complexity (failure_record r) = Some 0"
  "comment_density (failure_record r) = Some 0"
  "fsize (failure_record r) = Some [''bytes'' \<mapsto> 0, ''kb'' \<mapsto> 0, ''mb'' \<mapsto> 0]"
  by (simp_all add: failure_record_def)

lemma analyze_file_broken_sample:
  "analyze_file sample_platform ''./broken.py'' = Inr (Some (failure_record ''/repo/broken.py''))"
  by (simp add: analyze_file_def analyze_file_try_def sample_defs path_defs get_file_size_def)

section \<open>Safety tier resolver: claims\<close>

text \<open>
  C2. The base tier that \<open>get_safety_rating\<close> resolves is the first tier of the table
  SIMPLE (15 / 1000), SAFE (35 / 2500), COMPLEX (55 / 4000), DANGER (56 / 4001), taken
  in ascending order of threshold, whose threshold is at least the metric, and DANGER
  when the metric is above every threshold. The tables of the code are those of the
  specification, upper-cased. A program metric above 55 and a configuration size above
  4000 KB give DANGER. For a configuration file the base tier is what
  \<open>get_safety_rating\<close> returns; for a program file it is what the comment adjustment
  is applied to.
\<close>

theorem base_tier_first_match:
  "map (\<lambda>(rating, threshold). (upper rating, threshold)) complexity_tiers = spec_program_tiers
   \<and> map (\<lambda>(rating, threshold). (upper rating, threshold)) size_tiers = spec_config_tiers
   \<and> sorted_wrt (<) (map snd spec_program_tiers)
   \<and> sorted_wrt (<) (map snd spec_config_tiers)
   \<and> base_safety complexity_tiers m = spec_base_tier spec_program_tiers m
   \<and> base_safety size_tiers m = spec_base_tier spec_config_tiers m
   \<and> (55 < m \<longrightarrow> base_safety complexity_tiers m = ''DANGER'')
   \<and> (4000 < m \<longrightarrow> base_safety size_tiers m = ''DANGER'')
   \<and> get_safety_rating (fd\<lparr>ftype := Some ''config'', fsize := Some (sz(''kb'' \<mapsto> m))\<rparr>)
       = base_safety size_tiers m
   \<and> get_safety_rating (fd\<lparr>ftype := Some ''python'', complexity := Some m\<rparr>)
       = adjust_safety (base_safety complexity_tiers m) (density_or_zero fd)"
proof -
  have tables:
    "map (\<lambda>(rating, threshold). (upper rating, threshold)) complexity_tiers = spec_program_tiers"
    "map (\<lambda>(rating, threshold). (upper rating, threshold)) size_tiers = spec_config_tiers"
    by (simp_all add: complexity_tiers_def size_tiers_def spec_program_tiers_def
        spec_config_tiers_def upper_tier_names)
  have ascending:
    "sorted_wrt (<) (map snd spec_program_tiers)" "sorted_wrt (<) (map snd spec_config_tiers)"
    by (simp_all add: spec_program_tiers_def spec_config_tiers_def)
  have program: "base_safety complexity_tiers m = spec_base_tier spec_program_tiers m"
    by (simp add: base_program_cases spec_base_tier_def spec_program_tiers_def)
  have config: "base_safety size_tiers m = spec_base_tier spec_config_tiers m"
    by (simp add: base_config_cases spec_base_tier_def spec_config_tiers_def)
  have above: "55 < m \<longrightarrow> base_safety complexity_tiers m = ''DANGER''"
    "4000 < m \<longrightarrow> base_safety size_tiers m = ''DANGER''"
    by (simp_all add: base_program_cases base_config_cases)
  from tables ascending program config above show ?thesis
    by (simp only: rating_config rating_program simp_thms)
qed

theorem base_tier_first_match_witness:
  "(55 :: number) < 60 \<and> base_safety complexity_tiers 60 = ''DANGER''
   \<and> (4000 :: number) < 5000 \<and> base_safety size_tiers 5000 = ''DANGER''
   \<and> get_safety_rating (config_data 5000 ''PENDING'') = ''DANGER''
   \<and> base_safety complexity_tiers 56 = ''DANGER''
   \<and> base_safety complexity_tiers 10 = ''SIMPLE''"
  using base_tier_first_match [where m = 60 and fd = no_data and sz = Map.empty]
    base_tier_first_match [where m = 5000 and fd = "no_data\<lparr>safety := Some ''PENDING''\<rparr>" and sz = Map.empty]
    base_tier_first_match [where m = 56 and fd = no_data and sz = Map.empty]
    base_tier_first_match [where m = 10 and fd = no_data and sz = Map.empty]
  by (simp add: config_data_def no_data_def spec_base_tier_def spec_program_tiers_def
      spec_config_tiers_def)

text \<open>
  C3. For a program file the rating returned is the base tier moved on the scale
  SIMPLE, SAFE, COMPLEX, DANGER: one step towards SIMPLE when the comment density is
  at least 25 (staying at SIMPLE), one step towards DANGER when it is below 10
  (staying at DANGER), and the base tier itself otherwise; an absent density counts
  as 0. For a configuration file the rating is the base tier whatever the density.
\<close>

theorem comment_adjustment:
  "base_safety complexity_tiers m \<in> set safety_order
   \<and> get_safety_rating (fd\<lparr>ftype := Some ''python'', complexity := Some m\<rparr>) =
       (if density_or_zero fd \<ge> 25 then one_step_safer (base_safety complexity_tiers m)
        else if density_or_zero fd < 10 then one_step_less_safe (base_safety complexity_tiers m)
        else base_safety complexity_tiers m)
   \<and> tier_rank (one_step_safer (base_safety complexity_tiers m)) =
       (if tier_rank (base_safety complexity_tiers m) = 0 then 0
        else tier_rank (base_safety complexity_tiers m) - 1)
   \<and> tier_rank (one_step_less_safe (base_safety complexity_tiers m)) =
       (if tier_rank (base_safety complexity_tiers m) = 3 then 3
        else tier_rank (base_safety complexity_tiers m) + 1)
   \<and> get_safety_rating (fd\<lparr>ftype := Some ''config'', fsize := Some (sz(''kb'' \<mapsto> m))\<rparr>)
       = base_safety size_tiers m"
  using adjust_steps [OF base_on_scale(1), where m1 = m and d = "density_or_zero fd"]
    step_ranks [OF base_on_scale(1), where m1 = m]
  by (simp only: rating_config rating_program base_on_scale simp_thms)

theorem comment_adjustment_witness:
  "get_safety_rating (program_data 50 5 ''PENDING'') = ''DANGER''
   \<and> get_safety_rating (program_data 50 30 ''PENDING'') = ''SAFE''
   \<and> get_safety_rating (program_data 50 (25 / 2) ''PENDING'') = ''COMPLEX''
   \<and> get_safety_rating (program_data 10 30 ''PENDING'') = ''SIMPLE''
   \<and> get_safety_rating (program_data 60 0 ''PENDING'') = ''DANGER''
   \<and> get_safety_rating ((config_data 3000 ''PENDING'')\<lparr>comment_density := Some 30\<rparr>) = ''COMPLEX''"
proof -
  have data: "program_data cc d r
      = (no_data\<lparr>comment_density := Some d, safety := Some r\<rparr>)
          \<lparr>ftype := Some ''python'', complexity := Some cc\<rparr>"
    "(config_data kb r)\<lparr>comment_density := Some d\<rparr>
      = (no_data\<lparr>comment_density := Some d, safety := Some r\<rparr>)
          \<lparr>ftype := Some ''config'', fsize := Some (Map.empty(''kb'' \<mapsto> kb))\<rparr>"
    for cc d r kb
    by (simp_all add: program_data_def config_data_def no_data_def)
  have density: "density_or_zero (no_data\<lparr>comment_density := Some d, safety := Some r\<rparr>) = d"
    for d r
    by (simp add: density_or_zero_def no_data_def)
  show ?thesis
    unfolding data
    using
      comment_adjustment [where m = 50 and sz = Map.empty
        and fd = "no_data\<lparr>comment_density := Some 5, safety := Some ''PENDING''\<rparr>"]
      comment_adjustment [where m = 50 and sz = Map.empty
        and fd = "no_data\<lparr>comment_density := Some 30, safety := Some ''PENDING''\<rparr>"]
      comment_adjustment [where m = 50 and sz = Map.empty
        and fd = "no_data\<lparr>comment_density := Some (25 / 2), safety := Some ''PENDING''\<rparr>"]
      comment_adjustment [where m = 10 and sz = Map.empty
        and fd = "no_data\<lparr>comment_density := Some 30, safety := Some ''PENDING''\<rparr>"]
      comment_adjustment [where m = 60 and sz = Map.empty
        and fd = "no_data\<lparr>comment_density := Some 0, safety := Some ''PENDING''\<rparr>"]
      comment_adjustment [where m = 3000 and sz = Map.empty
        and fd = "no_data\<lparr>comment_density := Some 30, safety := Some ''PENDING''\<rparr>"]
    by (simp add: density base_program_cases base_config_cases one_step_safer_def
        one_step_less_safe_def)
qed

text \<open>
  C6. The base-tier lookup is monotone for both file types: a larger metric never
  resolves to a tier lower on the scale SIMPLE < SAFE < COMPLEX < DANGER. With the
  comment density fixed, the adjusted rating of a program file is monotone as well.
\<close>

theorem base_tier_monotone:
  assumes "m1 \<le> m2"
  shows "tier_rank (base_safety complexity_tiers m1) \<le> tier_rank (base_safety complexity_tiers m2)
   \<and> tier_rank (base_safety size_tiers m1) \<le> tier_rank (base_safety size_tiers m2)
   \<and> tier_rank (adjust_safety (base_safety complexity_tiers m1) d)
       \<le> tier_rank (adjust_safety (base_safety complexity_tiers m2) d)"
proof -
  have program: "tier_rank (base_safety complexity_tiers m1)
      \<le> tier_rank (base_safety complexity_tiers m2)"
    using assms by (simp add: base_program_cases tier_rank_def)
  have config: "tier_rank (base_safety size_tiers m1) \<le> tier_rank (base_safety size_tiers m2)"
    using assms by (simp add: base_config_cases tier_rank_def)
  have adjusted: "tier_rank (adjust_safety (base_safety complexity_tiers m1) d)
      \<le> tier_rank (adjust_safety (base_safety complexity_tiers m2) d)"
    using program rank_bound [of "base_safety complexity_tiers m1"]
      rank_bound [of "base_safety complexity_tiers m2"]
    by (auto simp add: adjust_rank [OF base_on_scale(1)])
  from program config adjusted show ?thesis by simp
qed

theorem base_tier_monotone_witness:
  "(20 :: number) \<le> 40
   \<and> tier_rank (base_safety complexity_tiers 20) = 1
   \<and> tier_rank (base_safety complexity_tiers 40) = 2
   \<and> tier_rank (base_safety complexity_tiers 20) \<le> tier_rank (base_safety complexity_tiers 40)
   \<and> tier_rank (base_safety size_tiers 20) \<le> tier_rank (base_safety size_tiers 40)"
  using base_tier_monotone [of 20 40 0]
  by (simp add: base_program_cases tier_rank_def)

section \<open>Recommendation filter: claims\<close>

text \<open>
  C4. For a recognized file type and any safety rating, a model of the registry that
  appears in the list returned by \<open>get_ai_recommendations\<close> has a threshold for that
  file type at or above the primary metric, and the list is a subsequence of the
  registry's names in insertion order.
\<close>

theorem recommendations_within_threshold:
  assumes "recognized ft" and "ftype fd = Some ft"
  shows "(\<forall>(model, py, cfg) \<in> set AI_THRESHOLDS.
            model \<in> set (get_ai_recommendations fd) \<longrightarrow>
            primary_metric ft fd \<le> (if ft = ''python'' then py else cfg))
         \<and> subseq (get_ai_recommendations fd) (map fst AI_THRESHOLDS)"
proof -
  let ?kept = "metric_filter ft (primary_metric ft fd) AI_THRESHOLDS"
  have sub: "subseq (get_ai_recommendations fd) ?kept"
    using assms by (rule recommendations_subseq)
  have order: "subseq ?kept (map fst AI_THRESHOLDS)"
    by (simp add: metric_filter_eq subseq_map)
  have bound: "primary_metric ft fd \<le> (if ft = ''python'' then py else cfg)"
    if entry: "(model, py, cfg) \<in> set AI_THRESHOLDS"
      and shown: "model \<in> set (get_ai_recommendations fd)" for model py cfg
  proof -
    from shown recommendations_subset [OF assms] have "model \<in> set ?kept"
      by blast
    then obtain py' cfg' where kept: "(model, py', cfg') \<in> set AI_THRESHOLDS"
        "primary_metric ft fd \<le> (if ft = ''python'' then py' else cfg')"
      by (auto simp: metric_filter_eq)
    from registry_distinct entry kept(1) have "(py', cfg') = (py, cfg)"
      by (meson eq_key_imp_eq_value)
    with kept(2) show ?thesis by auto
  qed
  from bound sub order show ?thesis
    by (blast intro: subseq_order.order_trans)
qed

theorem recommendations_within_threshold_witness:
  "recognized ''python''
   \<and> ftype (program_data 40 12 ''SAFE'') = Some ''python''
   \<and> get_ai_recommendations (program_data 40 12 ''SAFE'') = [''claude-3.5-sonnet'', ''gpt-4-turbo'']
   \<and> primary_metric ''python'' (program_data 40 12 ''SAFE'') = 40
   \<and> subseq (get_ai_recommendations (program_data 40 12 ''SAFE'')) (map fst AI_THRESHOLDS)"
proof -
  have given: "recognized ''python''" "ftype (program_data 40 12 ''SAFE'') = Some ''python''"
    by (simp_all add: recognized_def program_data_def no_data_def)
  have result: "get_ai_recommendations (program_data 40 12 ''SAFE'')
      = [''claude-3.5-sonnet'', ''gpt-4-turbo'']"
    "primary_metric ''python'' (program_data 40 12 ''SAFE'') = 40"
    by (simp_all add: get_ai_recommendations_def primary_metric_def program_data_def no_data_def
        AI_THRESHOLDS_def)
  from recommendations_within_threshold [OF given] given result show ?thesis
    by simp
qed

text \<open>
  C7. For a recognized file type: with safety DANGER the list is the single model
  \<open>claude-3.5-sonnet\<close>, the top-capability model of the registry, when it passed the
  metric filter, and empty otherwise, so at most one model; with safety COMPLEX it
  is the metric-filtered list without \<open>claude-3.5-haiku\<close>, the weakest-capability
  model; with safety SIMPLE or SAFE it is the metric-filtered list.
\<close>

theorem safety_post_filter:
  assumes "recognized ft" and "ftype fd = Some ft"
  shows "top_capability ''claude-3.5-sonnet'' \<and> weakest_capability ''claude-3.5-haiku''
    \<and> (safety fd = Some ''DANGER'' \<longrightarrow>
          get_ai_recommendations fd =
            (if ''claude-3.5-sonnet'' \<in> set (metric_filter ft (primary_metric ft fd) AI_THRESHOLDS)
             then [''claude-3.5-sonnet''] else [])
          \<and> length (get_ai_recommendations fd) \<le> 1)
    \<and> (safety fd = Some ''COMPLEX'' \<longrightarrow>
          get_ai_recommendations fd =
            filter (\<lambda>m. m \<noteq> ''claude-3.5-haiku'')
              (metric_filter ft (primary_metric ft fd) AI_THRESHOLDS))
    \<and> (safety fd = Some ''SIMPLE'' \<or> safety fd = Some ''SAFE'' \<longrightarrow>
          get_ai_recommendations fd = metric_filter ft (primary_metric ft fd) AI_THRESHOLDS)"
proof -
  have extremes: "top_capability ''claude-3.5-sonnet''" "weakest_capability ''claude-3.5-haiku''"
    by (simp_all add: top_capability_def weakest_capability_def AI_THRESHOLDS_def)
  from assms have ft: "ftype fd = Some ''python'' \<or> ftype fd = Some ''config''"
    by (auto simp: recognized_def)
  from assms ft extremes show ?thesis
    by (auto simp: get_ai_recommendations_def Let_def)
qed

theorem safety_post_filter_witness:
  "get_ai_recommendations (program_data 50 5 ''DANGER'') = [''claude-3.5-sonnet'']
   \<and> get_ai_recommendations (program_data 60 5 ''DANGER'') = []
   \<and> get_ai_recommendations (config_data 2000 ''COMPLEX'') = [''claude-3.5-sonnet'', ''gpt-4-turbo'']
   \<and> get_ai_recommendations (config_data 2000 ''SAFE'')
       = [''claude-3.5-sonnet'', ''claude-3.5-haiku'', ''gpt-4-turbo'']"
proof -
  have types: "recognized ''python''" "recognized ''config''"
    "ftype (program_data cc d r) = Some ''python''" "ftype (config_data kb r) = Some ''config''"
    "safety (program_data cc d r) = Some r" "safety (config_data kb r) = Some r" for cc d kb r
    by (simp_all add: recognized_def program_data_def config_data_def no_data_def)
  have metrics: "primary_metric ''python'' (program_data cc d r) = cc"
    "primary_metric ''config'' (config_data kb r) = kb" for cc d kb r
    by (simp_all add: primary_metric_def program_data_def config_data_def no_data_def)
  show ?thesis
    using safety_post_filter [OF types(1) types(3), of 50 5 "''DANGER''"]
      safety_post_filter [OF types(1) types(3), of 60 5 "''DANGER''"]
      safety_post_filter [OF types(2) types(4), of 2000 "''COMPLEX''"]
      safety_post_filter [OF types(2) types(4), of 2000 "''SAFE''"]
    by (simp add: types metrics AI_THRESHOLDS_def)
qed

text \<open>
  C9. When the file type is neither \<open>'python'\<close> nor \<open>'config'\<close> (or the key is absent),
  \<open>get_ai_recommendations\<close> returns exactly \<open>['Human Review']\<close>, whatever the metric and
  the safety rating.
\<close>

theorem unrecognized_type_human_review:
  assumes "ftype fd \<noteq> Some ''python''" and "ftype fd \<noteq> Some ''config''"
  shows "get_ai_recommendations fd = [''Human Review'']"
  using assms by (auto simp: get_ai_recommendations_def Let_def split: option.splits)

theorem unrecognized_type_human_review_witness:
  "get_ai_recommendations ((program_data 10 30 ''SIMPLE'')\<lparr>ftype := Some ''error''\<rparr>)
     = [''Human Review'']
   \<and> get_ai_recommendations (no_data\<lparr>complexity := Some 99, safety := Some ''DANGER''\<rparr>)
     = [''Human Review'']"
  using unrecognized_type_human_review [of "(program_data 10 30 ''SIMPLE'')\<lparr>ftype := Some ''error''\<rparr>"]
    unrecognized_type_human_review [of "no_data\<lparr>complexity := Some 99, safety := Some ''DANGER''\<rparr>"]
  by (simp add: program_data_def no_data_def)

text \<open>
  C10. The safety post-filter acts on DANGER and COMPLEX only. For a recognized file
  type and any other safety value, the \<open>'ERROR'\<close> of a failed \<open>get_safety_rating\<close> and
  an absent key included, the result is the whole metric-filtered list; it is
  neither \<open>['Human Review']\<close> nor \<open>['Analysis Failed']\<close>.
\<close>

theorem post_filter_only_danger_complex:
  assumes "recognized ft" and "ftype fd = Some ft"
    and "safety fd \<noteq> Some ''DANGER''" and "safety fd \<noteq> Some ''COMPLEX''"
  shows "get_ai_recommendations fd = metric_filter ft (primary_metric ft fd) AI_THRESHOLDS
    \<and> get_ai_recommendations fd \<noteq> [''Human Review'']
    \<and> get_ai_recommendations fd \<noteq> [''Analysis Failed'']"
proof -
  have whole: "get_ai_recommendations fd = metric_filter ft (primary_metric ft fd) AI_THRESHOLDS"
    using assms
    by (auto simp: get_ai_recommendations_def recognized_def Let_def split: option.splits)
  have names: "set (metric_filter ft m AI_THRESHOLDS) \<subseteq> fst ` set AI_THRESHOLDS" for m
    by (auto simp: metric_filter_eq)
  have "''Human Review'' \<notin> fst ` set AI_THRESHOLDS" "''Analysis Failed'' \<notin> fst ` set AI_THRESHOLDS"
    by (simp_all add: AI_THRESHOLDS_def)
  with names [of "primary_metric ft fd"] whole show ?thesis
    by auto
qed

theorem post_filter_only_danger_complex_witness:
  "get_safety_rating (no_data\<lparr>ftype := Some ''python''\<rparr>) = ''ERROR''
   \<and> get_ai_recommendations (no_data\<lparr>ftype := Some ''python'', safety := Some ''ERROR''\<rparr>)
       = [''claude-3.5-sonnet'', ''claude-3.5-haiku'', ''gpt-4-turbo'']
   \<and> get_ai_recommendations (no_data\<lparr>ftype := Some ''python'', safety := Some ''ERROR''\<rparr>)
       \<noteq> [''Human Review'']"
proof -
  let ?fd = "no_data\<lparr>ftype := Some ''python'', safety := Some ''ERROR''\<rparr>"
  have given: "recognized ''python''" "ftype ?fd = Some ''python''"
    "safety ?fd \<noteq> Some ''DANGER''" "safety ?fd \<noteq> Some ''COMPLEX''"
    by (simp_all add: recognized_def no_data_def)
  have failed: "get_safety_rating (no_data\<lparr>ftype := Some ''python''\<rparr>) = ''ERROR''"
    by (simp add: get_safety_rating_def no_data_def)
  have kept: "metric_filter ''python'' (primary_metric ''python'' ?fd) AI_THRESHOLDS
      = [''claude-3.5-sonnet'', ''claude-3.5-haiku'', ''gpt-4-turbo'']"
    by (simp add: primary_metric_def no_data_def AI_THRESHOLDS_def)
  from post_filter_only_danger_complex [OF given] failed kept show ?thesis
    by simp
qed

section \<open>Comment quality analyzer: claims\<close>




section \<open>Classification facade: claims\<close>

text \<open>
  C1. \<open>analyze_file\<close> catches every exception of its body, but its handler calls
  \<open>Path(file_path).resolve()\<close> again while building the failure record. For
  \<open>./loop.py\<close> of the sample directory that call raises RuntimeError in the body and
  again in the handler, and the exception leaves \<open>analyze_file\<close>: no record is
  returned.
\<close>

theorem analyze_file_handler_raises:
  "analyze_file_try sample_platform ''./loop.py'' = Inl RuntimeError
   \<and> analyze_file sample_platform ''./loop.py'' = Inl RuntimeError"
  by (simp add: analyze_file_def analyze_file_try_def sample_platform_def path_defs)

end
